theory Spec2Isabelle
  imports Complex_Main "HOL-Library.AList"
begin

section \<open>Python values used by the crawler model\<close>

text \<open>
  The exceptions the modelled code can raise.  A function that can raise returns
  \<open>error + 'a\<close>, with \<open>Inl\<close> for the exception.
\<close>

datatype error = UnboundLocalError | KeyError | IndexError | ValueError | TypeError

subsection \<open>Strings: \<open>split\<close>, \<open>join\<close> and the substring test\<close>

text \<open>\<open>s.split(d)\<close> for a one-character separator: never empty, \<open>''.split(';') == ['']\<close>.\<close>

fun str_split :: "char \<Rightarrow> string \<Rightarrow> string list" where
  "str_split d [] = [[]]"
| "str_split d (c # cs) =
     (if c = d then [] # str_split d cs
      else (case str_split d cs of
              w # ws \<Rightarrow> (c # w) # ws
            | [] \<Rightarrow> [[c]]))"

text \<open>\<open>sep.join(xs)\<close>.\<close>

fun str_join :: "string \<Rightarrow> string list \<Rightarrow> string" where
  "str_join sep [] = []"
| "str_join sep [x] = x"
| "str_join sep (x # y # ys) = x @ sep @ str_join sep (y # ys)"

text \<open>\<open>s.startswith(t)\<close>, and \<open>t in s\<close> for two strings: \<open>t\<close> occurs in \<open>s\<close> as a substring.\<close>

fun starts_with :: "string \<Rightarrow> string \<Rightarrow> bool" where
  "starts_with s [] = True"
| "starts_with [] (c # t) = False"
| "starts_with (a # s) (c # t) = (a = c \<and> starts_with s t)"

fun str_contains :: "string \<Rightarrow> string \<Rightarrow> bool" where
  "str_contains [] t = (t = [])"
| "str_contains (c # cs) t = (starts_with (c # cs) t \<or> str_contains cs t)"

section \<open>The search backend as seen by \<open>elastic/get_documents.py\<close>\<close>

text \<open>
  A hit of a search response is the value of its \<open>'fields'\<close> key, when it has one: a
  dictionary from field names to lists of values.  Dictionaries are association lists:
  \<open>d.get(k)\<close> is \<open>map_of d k\<close>, \<open>d[k] = v\<close> is \<open>AList.update k v d\<close>, \<open>len(d)\<close> is
  \<open>length d\<close>.
\<close>

type_synonym fields = "(string \<times> string list) list"
type_synonym hit = "fields option"

text \<open>A record built by \<open>get_documents\<close>: field name to first value.\<close>

type_synonym doc = "(string \<times> string) list"
type_synonym results = "(string \<times> doc) list"

text \<open>
  The server: \<open>es.search\<close> on a term query, as a function of the index, the document type,
  the queried field, the queried value and the requested fields; the value is
  \<open>res['hits']['hits']\<close>.
\<close>

type_synonym es = "string option \<Rightarrow> string \<Rightarrow> string \<Rightarrow> string \<Rightarrow> string list \<Rightarrow> hit list"

text \<open>\<open>for field in fields: if not hits.get(field) is None: record[field] = hits[field][0]\<close>\<close>

fun read_fields :: "string list \<Rightarrow> fields \<Rightarrow> doc \<Rightarrow> error + doc" where
  "read_fields [] hits record = Inr record"
| "read_fields (field # fs) hits record =
     (case map_of hits field of
        None \<Rightarrow> read_fields fs hits record
      | Some [] \<Rightarrow> Inl IndexError
      | Some (v # _) \<Rightarrow> read_fields fs hits (AList.update field v record))"

text \<open>The body of \<open>for term in terms\<close> in \<open>get_documents\<close>, threading \<open>results\<close>.\<close>

fun get_documents_loop ::
  "(string \<Rightarrow> hit list) \<Rightarrow> string list \<Rightarrow> string list \<Rightarrow> results \<Rightarrow> error + results" where
  "get_documents_loop search [] fields results = Inr results"
| "get_documents_loop search (term # terms) fields results =
     (case search term of
        [] \<Rightarrow> get_documents_loop search terms fields results
      | None # _ \<Rightarrow> get_documents_loop search terms fields results
      | Some hits # _ \<Rightarrow>
          (case read_fields fields hits [] of
             Inl e \<Rightarrow> Inl e
           | Inr record \<Rightarrow>
               get_documents_loop search terms fields (AList.update term record results)))"

text \<open>
  \<open>get_documents(terms, term_field, fields, es_index, es_doc_type, es)\<close>.  The variable
  \<open>results\<close> is bound only inside \<open>if len(terms) > 0\<close>; the \<open>return results\<close> after it
  raises \<open>UnboundLocalError\<close> otherwise.
\<close>

definition get_documents ::
  "es \<Rightarrow> string list \<Rightarrow> string \<Rightarrow> string list \<Rightarrow> string option \<Rightarrow> string \<Rightarrow> error + results" where
  "get_documents es terms term_field fields es_index es_doc_type =
     (if length terms > 0
      then get_documents_loop (\<lambda>term. es es_index es_doc_type term_field term fields) terms fields []
      else Inl UnboundLocalError)"

section \<open>The crawler model (\<open>models/crawlermodel.py\<close>)\<close>

text \<open>
  The fields of a \<open>CrawlerModel\<close> object: \<open>self.es\<close> (the address of the server, once a
  list of crawlers was requested), \<open>self._activeCrawlerIndex\<close>, \<open>self._filter\<close>
  (\<open>filterText\<close> here), \<open>self._pagesCap\<close> and \<open>self._randomTerms\<close>.
\<close>

record CrawlerModel =
  es_handle :: "string option"
  activeCrawlerIndex :: "string option"
  filterText :: "string option"
  pagesCap :: int
  randomTerms :: "(string \<times> (string \<times> int \<times> int \<times> string list)) list"

subsection \<open>Tagging pages and terms\<close>

text \<open>
  An entry \<open>{'url': page, 'tag': t}\<close> or \<open>{'term': term, 'tag': t}\<close> is the pair of the
  identifier and the tag string.  The calls to \<open>elastic.add_documents\<close>, in the order made:
  \<open>add_document(entries, es_index, es_doc_type, es)\<close> and
  \<open>update_document(entries, term_field, es_index, es_doc_type, es)\<close>.
\<close>

type_synonym entry = "string \<times> string"

datatype call =
    AddDocument "entry list" "string option" string
  | UpdateDocument "entry list" string "string option" string

text \<open>\<open>setPagesTag\<close>, the loop of the branch \<open>if applyTagFlag\<close>.\<close>

fun pages_add_loop :: "results \<Rightarrow> string \<Rightarrow> string list \<Rightarrow> entry list \<Rightarrow> error + entry list" where
  "pages_add_loop results tag [] entries = Inr entries"
| "pages_add_loop results tag (page # pages) entries =
     (if length results > 0 then
        (case map_of results page of
           None \<Rightarrow> pages_add_loop results tag pages (entries @ [(page, tag)])
         | Some record \<Rightarrow>
             (case map_of record ''tag'' of
                None \<Rightarrow> Inl KeyError
              | Some old_tag \<Rightarrow>
                  if \<not> str_contains old_tag tag
                  then pages_add_loop results tag pages (entries @ [(page, old_tag @ '';'' @ tag)])
                  else pages_add_loop results tag pages entries))
      else pages_add_loop results tag pages (entries @ [(page, tag)]))"

text \<open>
  \<open>setPagesTag\<close>, the loop of the \<open>else\<close> branch: \<open>tags.remove(tag)\<close> removes the first
  occurrence and raises \<open>ValueError\<close> when there is none.
\<close>

fun pages_remove_loop :: "results \<Rightarrow> string \<Rightarrow> string list \<Rightarrow> entry list \<Rightarrow> error + entry list" where
  "pages_remove_loop results tag [] entries = Inr entries"
| "pages_remove_loop results tag (page # pages) entries =
     (case (if length results > 0 then map_of results page else None) of
        None \<Rightarrow> pages_remove_loop results tag pages entries
      | Some record \<Rightarrow>
          (case map_of record ''tag'' of
             None \<Rightarrow> Inl KeyError
           | Some old_tag \<Rightarrow>
               if str_contains old_tag tag then
                 (let tags = str_split CHR '';'' old_tag in
                  if tag \<in> set tags
                  then pages_remove_loop results tag pages
                         (entries @ [(page, str_join '';'' (remove1 tag tags))])
                  else Inl ValueError)
               else pages_remove_loop results tag pages entries))"

definition setPagesTag ::
  "es \<Rightarrow> CrawlerModel \<Rightarrow> string list \<Rightarrow> string \<Rightarrow> bool \<Rightarrow> error + call list" where
  "setPagesTag es self pages tag applyTagFlag =
     (case get_documents es pages ''url'' [''tag''] (activeCrawlerIndex self) ''page'' of
        Inl e \<Rightarrow> Inl e
      | Inr results \<Rightarrow>
          (case (if applyTagFlag then pages_add_loop results tag pages []
                 else pages_remove_loop results tag pages []) of
             Inl e \<Rightarrow> Inl e
           | Inr entries \<Rightarrow>
               Inr [UpdateDocument entries ''url'' (activeCrawlerIndex self) ''page'']))"

text \<open>\<open>setTermsTag\<close>, the loop of the branch \<open>if applyTagFlag\<close>, threading both lists.\<close>

fun terms_add_loop ::
  "results \<Rightarrow> string \<Rightarrow> string list \<Rightarrow> entry list \<times> entry list \<Rightarrow> error + entry list \<times> entry list" where
  "terms_add_loop results tag [] (add_entries, update_entries) = Inr (add_entries, update_entries)"
| "terms_add_loop results tag (term # terms) (add_entries, update_entries) =
     (if length results > 0 then
        (case map_of results term of
           Some record \<Rightarrow>
             (case map_of record ''tag'' of
                None \<Rightarrow> Inl KeyError
              | Some old_tag \<Rightarrow>
                  if \<not> str_contains old_tag tag
                  then terms_add_loop results tag terms
                         (add_entries, update_entries @ [(term, old_tag @ '';'' @ tag)])
                  else terms_add_loop results tag terms (add_entries, update_entries))
         | None \<Rightarrow> terms_add_loop results tag terms (add_entries @ [(term, tag)], update_entries))
      else terms_add_loop results tag terms (add_entries @ [(term, tag)], update_entries))"

text \<open>
  \<open>setTermsTag\<close>, the loop of the \<open>else\<close> branch.  The source reads
  \<open>tags = tags.remove(tag)\<close>: \<open>list.remove\<close> raises \<open>ValueError\<close> when the tag is no
  element and returns \<open>None\<close> otherwise, so \<open>';'.join(tags)\<close> on the next line raises
  \<open>TypeError\<close>.
\<close>

fun terms_remove_loop ::
  "results \<Rightarrow> string \<Rightarrow> string list \<Rightarrow> entry list \<Rightarrow> error + entry list" where
  "terms_remove_loop results tag [] update_entries = Inr update_entries"
| "terms_remove_loop results tag (term # terms) update_entries =
     (if length results > 0 then
        (case map_of results term of
           Some record \<Rightarrow>
             (case map_of record ''tag'' of
                None \<Rightarrow> Inl KeyError
              | Some old_tag \<Rightarrow>
                  if str_contains old_tag tag then
                    (let tags = str_split CHR '';'' old_tag in
                     if tag \<in> set tags then Inl TypeError else Inl ValueError)
                  else terms_remove_loop results tag terms update_entries)
         | None \<Rightarrow> terms_remove_loop results tag terms update_entries)
      else terms_remove_loop results tag terms update_entries)"

definition setTermsTag ::
  "es \<Rightarrow> CrawlerModel \<Rightarrow> string list \<Rightarrow> string \<Rightarrow> bool \<Rightarrow> error + call list" where
  "setTermsTag es self terms tag applyTagFlag =
     (case get_documents es terms ''term'' [''tag''] (activeCrawlerIndex self) ''terms'' of
        Inl e \<Rightarrow> Inl e
      | Inr results \<Rightarrow>
          (case (if applyTagFlag then terms_add_loop results tag terms ([], [])
                 else map_sum id (Pair []) (terms_remove_loop results tag terms [])) of
             Inl e \<Rightarrow> Inl e
           | Inr (add_entries, update_entries) \<Rightarrow>
               Inr ((if add_entries \<noteq> []
                     then [AddDocument add_entries (activeCrawlerIndex self) ''terms''] else [])
                    @ (if update_entries \<noteq> []
                       then [UpdateDocument update_entries ''term'' (activeCrawlerIndex self) ''terms'']
                       else []))))"

subsection \<open>Tag strings and tag lists\<close>

text \<open>
  The stored tag field is one string.  \<open>decode_tags\<close> is how a listing reads it
  (\<open>getPages\<close>: \<open>doc[3]\<close> starts as \<open>[]\<close> and becomes \<open>hit['tag'][0].split(';')\<close> when the
  hit has a tag; the same \<open>split(';')\<close> in \<open>setPagesTag\<close>), \<open>encode_tags\<close> is how
  \<open>setPagesTag\<close> writes it back (\<open>';'.join(tags)\<close>).
\<close>

definition decode_tags :: "string option \<Rightarrow> string list" where
  "decode_tags raw = (case raw of None \<Rightarrow> [] | Some t \<Rightarrow> str_split CHR '';'' t)"

definition encode_tags :: "string list \<Rightarrow> string" where
  "encode_tags tags = str_join '';'' tags"

subsection \<open>Page summary\<close>

text \<open>
  \<open>elastic.search_documents.range\<close> is not among the sources; it is a parameter, called as
  \<open>range(field, from, to, ret_fields, epoch, es_index, es=self.es)\<close> and returning the
  sequence of result dictionaries.  Python's \<open>in\<close> depends on what \<open>res['tag']\<close> is: a
  substring test when the field is delivered as the stored string, list membership when
  it is delivered as the list of the field's values (as the hits of \<open>get_documents\<close> are).
\<close>

datatype field_value = StrValue string | ListValue "string list"

fun py_in :: "string \<Rightarrow> field_value \<Rightarrow> bool" where
  "py_in t (StrValue s) = str_contains s t"
| "py_in t (ListValue vs) = (t \<in> set vs)"

type_synonym range_hit = "(string \<times> field_value) list"
type_synonym range_search =
  "string \<Rightarrow> real \<Rightarrow> real \<Rightarrow> string list \<Rightarrow> bool \<Rightarrow> string option \<Rightarrow> range_hit list"

record summary =
  Relevant :: nat
  Irrelevant :: nat
  Neutral :: nat

text \<open>The loop \<open>for res in results\<close>; a missing \<open>'tag'\<close> key is the \<open>except KeyError\<close> branch.\<close>

fun count_tags :: "range_hit list \<Rightarrow> nat \<times> nat \<times> nat \<Rightarrow> nat \<times> nat \<times> nat" where
  "count_tags [] (relevant, irrelevant, neutral) = (relevant, irrelevant, neutral)"
| "count_tags (res # results) (relevant, irrelevant, neutral) =
     (case map_of res ''tag'' of
        None \<Rightarrow> count_tags results (relevant, irrelevant, neutral + 1)
      | Some tags \<Rightarrow>
          if py_in ''Relevant'' tags then count_tags results (relevant + 1, irrelevant, neutral)
          else if py_in ''Irrelevant'' tags then count_tags results (relevant, irrelevant + 1, neutral)
          else count_tags results (relevant, irrelevant, neutral + 1))"

text \<open>
  \<open>clock\<close> is the pair of \<open>time.mktime(time.localtime(0))\<close> and \<open>time.mktime(time.localtime())\<close>,
  the defaults of the two bounds.
\<close>

definition getPagesSummarySeedCrawler ::
  "range_search \<Rightarrow> real \<times> real \<Rightarrow> CrawlerModel \<Rightarrow> real option \<Rightarrow> real option \<Rightarrow> bool \<Rightarrow> summary" where
  "getPagesSummarySeedCrawler range_fn clock self opt_ts1 opt_ts2 opt_applyFilter =
     (let ts1 = (case opt_ts1 of None \<Rightarrow> fst clock | Some t \<Rightarrow> t);
          ts2 = (case opt_ts2 of None \<Rightarrow> snd clock | Some t \<Rightarrow> t);
          results =
            (if opt_applyFilter
             then range_fn ''retrieved'' ts1 ts2 [''url'', ''tag''] True (activeCrawlerIndex self)
             else range_fn ''retrieved'' ts1 ts2 [''url'', ''tag''] True (activeCrawlerIndex self));
          (relevant, irrelevant, neutral) = count_tags results (0, 0, 0)
      in \<lparr>Relevant = relevant, Irrelevant = irrelevant, Neutral = neutral\<rparr>)"

subsection \<open>Filter\<close>

text \<open>\<open>if terms: self._filter = terms\<close>: \<open>None\<close> and the empty string are false.\<close>

definition applyFilter :: "CrawlerModel \<Rightarrow> string option \<Rightarrow> CrawlerModel" where
  "applyFilter self terms =
     (case terms of
        None \<Rightarrow> self
      | Some t \<Rightarrow> if t \<noteq> [] then self\<lparr>filterText := Some t\<rparr> else self)"

subsection \<open>Term summary\<close>

text \<open>
  The collaborators of \<open>getTermsSummarySeedCrawler\<close> that are not among the sources:
  \<open>term_search(field, values, es_index, es_doc_type, es)\<close>, the response of the server to
  the \<open>match_all\<close> query of \<open>get_all_ids\<close>, and the ranking objects:
  \<open>extract_terms(tfidf(urls)).getTopTerms(n)\<close> and \<open>tfidf(urls).getTtf()\<close>.
\<close>

record ranking =
  term_search :: "string \<Rightarrow> string list \<Rightarrow> string option \<Rightarrow> string \<Rightarrow> string list"
  match_all :: "string option \<Rightarrow> string \<Rightarrow> hit list"
  getTopTerms :: "string list \<Rightarrow> int \<Rightarrow> string list"
  getTtf :: "string list \<Rightarrow> (string \<times> int) list"

text \<open>\<open>get_all_ids\<close>: \<open>for hit in hits: urls.append(hit['fields']['url'][0])\<close>.\<close>

fun get_all_ids_loop :: "hit list \<Rightarrow> string list \<Rightarrow> error + string list" where
  "get_all_ids_loop [] urls = Inr urls"
| "get_all_ids_loop (hit # hits) urls =
     (case hit of
        None \<Rightarrow> Inl KeyError
      | Some flds \<Rightarrow>
          (case map_of flds ''url'' of
             None \<Rightarrow> Inl KeyError
           | Some [] \<Rightarrow> Inl IndexError
           | Some (u # _) \<Rightarrow> get_all_ids_loop hits (urls @ [u])))"

definition get_all_ids :: "ranking \<Rightarrow> string option \<Rightarrow> string \<Rightarrow> error + string list" where
  "get_all_ids rk es_index es_doc_type = get_all_ids_loop (match_all rk es_index es_doc_type) []"

text \<open>\<open>{ key: 0 if ttfs.get(key) is None else ttfs.get(key) for key in top_terms }\<close> and
  \<open>{ key: 0 for key in top_terms }\<close>.\<close>

definition freq_of :: "(string \<times> int) list \<Rightarrow> string list \<Rightarrow> (string \<times> int) list" where
  "freq_of ttfs top_terms =
     map (\<lambda>key. (key, case map_of ttfs key of None \<Rightarrow> 0 | Some f \<Rightarrow> f)) top_terms"

definition zero_freq :: "string list \<Rightarrow> (string \<times> int) list" where
  "zero_freq top_terms = map (\<lambda>key. (key, 0)) top_terms"

text \<open>An entry \<open>[term, pos_freq[term], neg_freq[term], tags]\<close> and the loop that builds them.\<close>

type_synonym term_entry = "string \<times> int \<times> int \<times> string list"

fun term_entries ::
  "results \<Rightarrow> (string \<times> int) list \<Rightarrow> (string \<times> int) list \<Rightarrow> string list \<Rightarrow> term_entry list
   \<Rightarrow> error + term_entry list" where
  "term_entries tags pos_freq neg_freq [] terms = Inr terms"
| "term_entries tags pos_freq neg_freq (term # top_terms) terms =
     (case map_of pos_freq term of
        None \<Rightarrow> Inl KeyError
      | Some pf \<Rightarrow>
          (case map_of neg_freq term of
             None \<Rightarrow> Inl KeyError
           | Some nf \<Rightarrow>
               (case map_of tags term of
                  None \<Rightarrow> term_entries tags pos_freq neg_freq top_terms (terms @ [(term, pf, nf, [])])
                | Some record \<Rightarrow>
                    (case map_of record ''tag'' of
                       None \<Rightarrow> Inl KeyError
                     | Some t \<Rightarrow>
                         term_entries tags pos_freq neg_freq top_terms
                           (terms @ [(term, pf, nf, str_split CHR '';'' t)])))))"

definition getTermsSummarySeedCrawler ::
  "es \<Rightarrow> ranking \<Rightarrow> CrawlerModel \<Rightarrow> int \<Rightarrow> error + term_entry list" where
  "getTermsSummarySeedCrawler es rk self opt_maxNumberOfTerms =
     (let tagged = term_search rk ''tag'' [''Relevant''] (activeCrawlerIndex self) ''page'' in
      case (if length tagged = 0
            then (case get_all_ids rk (activeCrawlerIndex self) ''page'' of
                    Inl e \<Rightarrow> Inl e
                  | Inr ids \<Rightarrow> Inr (ids, False))
            else Inr (tagged, True)) of
        Inl e \<Rightarrow> Inl e
      | Inr (pos_urls, pos_urls_found) \<Rightarrow>
          if length pos_urls > 1 then
            (let top_terms = getTopTerms rk pos_urls opt_maxNumberOfTerms in
             case get_documents es top_terms ''term'' [''tag''] (activeCrawlerIndex self) ''terms'' of
               Inl e \<Rightarrow> Inl e
             | Inr tags \<Rightarrow>
                 (let pos_freq = (if pos_urls_found then freq_of (getTtf rk pos_urls) top_terms
                                  else zero_freq top_terms);
                      neg_urls = term_search rk ''tag'' [''Irrelevant''] (activeCrawlerIndex self) ''page'';
                      neg_freq = (if length neg_urls > 1 then freq_of (getTtf rk neg_urls) top_terms
                                  else zero_freq top_terms)
                  in term_entries tags pos_freq neg_freq top_terms []))
          else Inr [])"

subsection \<open>Projection\<close>

text \<open>
  A page of a listing is the list \<open>[url, x, y, tags, retrieved]\<close>; the fields are its
  positions 0 to 4.
\<close>

record page =
  p_url :: string
  p_x :: real
  p_y :: real
  p_tags :: "string list"
  p_retrieved :: string

text \<open>
  The numerical collaborators: \<open>getTermStatistics(urls, es_index, 'page', es_server)\<close>, of
  which \<open>term_tfidf\<close> keeps the matrix (as a dense array) and the corpus, and scikit-learn's
  \<open>PCA(n_components).fit(X)\<close>, which raises on a matrix it cannot reduce and of which
  \<open>runPCASKLearn\<close> otherwise returns \<open>explained_variance_ratio_\<close> and \<open>transform(X)\<close>.
\<close>

record numerics =
  getTermStatistics :: "string list \<Rightarrow> string option \<Rightarrow> string \<Rightarrow> real list list \<times> string list"
  pca_fit :: "nat option \<Rightarrow> real list list \<Rightarrow> error + real list \<times> real list list"

definition term_tfidf ::
  "numerics \<Rightarrow> CrawlerModel \<Rightarrow> string list \<Rightarrow> string list \<times> string list \<times> real list list" where
  "term_tfidf nm self urls =
     (let (data, corpus) = getTermStatistics nm urls (activeCrawlerIndex self) ''page''
      in (urls, corpus, data))"

definition runPCASKLearn ::
  "numerics \<Rightarrow> real list list \<Rightarrow> nat option \<Rightarrow> error + real list \<times> real list list" where
  "runPCASKLearn nm X pc_count =
     (case pca_fit nm pc_count X of
        Inl e \<Rightarrow> Inl e
      | Inr (explained_variance_ratio, transformed) \<Rightarrow> Inr (explained_variance_ratio, transformed))"

text \<open>
  The loop \<open>for i, page in enumerate(pages)\<close> of \<open>pcaProjectPages\<close>, from index \<open>i\<close> on:
  \<open>break\<close> at the first index beyond the reduced rows; \<open>pcadata[1][i][0]\<close> and
  \<open>pcadata[1][i][1]\<close> raise \<open>IndexError\<close> on a row that is too short.
\<close>

fun assign_coordinates :: "real list list \<Rightarrow> nat \<Rightarrow> page list \<Rightarrow> error + page list" where
  "assign_coordinates rows i [] = Inr []"
| "assign_coordinates rows i (page # pages) =
     (if i \<ge> length rows then Inr (page # pages)
      else (case rows ! i of
              c0 # c1 # _ \<Rightarrow>
                (case assign_coordinates rows (Suc i) pages of
                   Inl e \<Rightarrow> Inl e
                 | Inr pages' \<Rightarrow> Inr (page\<lparr>p_x := c0, p_y := c1\<rparr> # pages'))
            | _ \<Rightarrow> Inl IndexError))"

definition pcaProjectPages :: "numerics \<Rightarrow> CrawlerModel \<Rightarrow> page list \<Rightarrow> error + page list" where
  "pcaProjectPages nm self pages =
     (let urls = map p_url pages;
          (_, _, data) = term_tfidf nm self urls;
          pca_count = 2
      in case runPCASKLearn nm data (Some pca_count) of
           Inl e \<Rightarrow> Inl e
         | Inr pcadata \<Rightarrow> assign_coordinates (snd pcadata) 0 pages)"

definition projectPages :: "numerics \<Rightarrow> CrawlerModel \<Rightarrow> page list \<Rightarrow> error + page list" where
  "projectPages nm self pages = pcaProjectPages nm self pages"

section \<open>Properties\<close>

subsection \<open>Splitting and joining\<close>

lemma str_split_nonempty: "str_split d s \<noteq> []"
  by (induction s) (auto split: list.splits)

lemma str_split_no_sep: "d \<notin> set x \<Longrightarrow> str_split d x = [x]"
  by (induction x) auto

lemma str_split_append: "str_split d (a @ d # b) = str_split d a @ str_split d b"
proof (induction a)
  case Nil
  show ?case by simp
next
  case (Cons c cs)
  obtain w ws where "str_split d cs = w # ws"
    using str_split_nonempty [of d cs] by (cases "str_split d cs") auto
  with Cons show ?case by auto
qed

lemma join_split: "str_join [d] (str_split d s) = s"
proof (induction s)
  case Nil
  show ?case by simp
next
  case (Cons c cs)
  obtain w ws where sp: "str_split d cs = w # ws"
    using str_split_nonempty [of d cs] by (cases "str_split d cs") auto
  show ?case
  proof (cases "c = d")
    case True
    with Cons sp show ?thesis by simp
  next
    case False
    with Cons sp show ?thesis by (cases ws) auto
  qed
qed

lemma split_join_nonempty:
  "tags \<noteq> [] \<Longrightarrow> \<forall>t \<in> set tags. d \<notin> set t \<Longrightarrow> str_split d (str_join [d] tags) = tags"
proof (induction "[d]" tags rule: str_join.induct)
  case 1
  then show ?case by simp
next
  case (2 x)
  then show ?case by (simp add: str_split_no_sep)
next
  case (3 x y ys)
  then show ?case by (simp add: str_split_append str_split_no_sep)
qed

text \<open>An element of the split string occurs in the string: membership implies \<open>in\<close>.\<close>

lemma starts_with_first_piece: "str_split d s = w # ws \<Longrightarrow> starts_with s w"
  by (induction s arbitrary: w ws) (auto split: if_splits list.splits)

lemma member_split_contains: "t \<in> set (str_split d s) \<Longrightarrow> str_contains s t"
proof (induction s)
  case Nil
  then show ?case by simp
next
  case (Cons c cs)
  show ?case
  proof (cases "c = d")
    case True
    with Cons show ?thesis by (cases t) auto
  next
    case False
    obtain w ws where sp: "str_split d cs = w # ws"
      using str_split_nonempty [of d cs] by (cases "str_split d cs") auto
    with False Cons.prems have "t = c # w \<or> t \<in> set ws" by simp
    then show ?thesis
    proof
      assume "t = c # w"
      with starts_with_first_piece [OF sp] show ?thesis by simp
    next
      assume "t \<in> set ws"
      with sp have "t \<in> set (str_split d cs)" by simp
      with Cons.IH show ?thesis by simp
    qed
  qed
qed

lemma starts_with_self: "starts_with t t"
  by (induction t) auto

lemma str_contains_append: "str_contains (a @ t) t"
proof (induction a)
  case Nil
  show ?case using starts_with_self [of t] by (cases t) auto
next
  case (Cons c cs)
  then show ?case by simp
qed

subsection \<open>Tag codec\<close>

text \<open>
  C6, as stated, fails on the empty tag list: it is written as the empty string, and the
  empty string is read back as the list holding one empty tag, since \<open>''.split(';')\<close> is
  \<open>['']\<close>.
\<close>

theorem decode_encode_empty:
  "decode_tags (Some (encode_tags [])) = ['''']
   \<and> decode_tags (Some (encode_tags [])) \<noteq> []
   \<and> decode_tags (Some '''') \<noteq> []"
  by (simp add: decode_tags_def encode_tags_def)

text \<open>
  C6, amended.  For every non-empty tag list whose elements contain no \<open>;\<close>, decoding the
  encoding returns the list; an absent tag field decodes to the empty list and the empty
  list encodes to the empty string; the empty string decodes to the list of one empty tag.
\<close>

theorem decode_encode_nonempty:
  "(tags \<noteq> [] \<and> (\<forall>t \<in> set tags. CHR '';'' \<notin> set t)
      \<longrightarrow> decode_tags (Some (encode_tags tags)) = tags)
   \<and> decode_tags None = []
   \<and> encode_tags [] = ''''
   \<and> decode_tags (Some '''') = ['''']"
  using split_join_nonempty [of tags "CHR '';''"]
  by (simp add: decode_tags_def encode_tags_def)

text \<open>The amended C6 at the tag list \<open>Negative\<close>, \<open>Positive\<close>.\<close>

theorem decode_encode_nonempty_witness:
  "[''Negative'', ''Positive''] \<noteq> []
   \<and> CHR '';'' \<notin> set ''Negative'' \<and> CHR '';'' \<notin> set ''Positive''
   \<and> decode_tags (Some (encode_tags [''Negative'', ''Positive''])) = [''Negative'', ''Positive'']"
  using decode_encode_nonempty [of "[''Negative'', ''Positive'']"]
  by simp

subsection \<open>Tagging\<close>

text \<open>
  What holds of the add branch: a tag that is an element of the stored tag list is found
  by the substring test (\<open>member_split_contains\<close>), so it is never added twice; and once an
  identifier carries \<open>old;tag\<close>, tagging it again emits nothing.
\<close>

lemma retag_emits_nothing:
  "pages_add_loop [(page, [(''tag'', old_tag @ '';'' @ tag)])] tag [page] [] = Inr []
   \<and> terms_add_loop [(page, [(''tag'', old_tag @ '';'' @ tag)])] tag [page] ([], []) = Inr ([], [])"
  using str_contains_append [of "old_tag @ '';''" tag] by simp

text \<open>
  What holds of the remove branch of \<open>setPagesTag\<close>: on the string written by the add
  branch it writes the former string back, for a tag without \<open>;\<close>.
\<close>

lemma untag_after_tag:
  assumes "\<not> str_contains old_tag tag" and "CHR '';'' \<notin> set tag"
  shows "str_join '';'' (remove1 tag (str_split CHR '';'' (old_tag @ '';'' @ tag))) = old_tag"
proof -
  from assms(1) have "tag \<notin> set (str_split CHR '';'' old_tag)"
    using member_split_contains by blast
  moreover have "str_split CHR '';'' (old_tag @ '';'' @ tag) = str_split CHR '';'' old_tag @ [tag]"
    using str_split_append [of "CHR '';''" old_tag tag] assms(2) by (simp add: str_split_no_sep)
  ultimately have
    "remove1 tag (str_split CHR '';'' (old_tag @ '';'' @ tag)) = str_split CHR '';'' old_tag"
    by (simp add: remove1_append)
  then show ?thesis using join_split [of "CHR '';''" old_tag] by simp
qed

text \<open>The remove branch of \<open>setTermsTag\<close> never reaches an update: it raises or emits nothing.\<close>

lemma terms_remove_loop_no_update:
  "terms_remove_loop results tag terms acc = Inr update_entries \<Longrightarrow> update_entries = acc"
  by (induction terms) (auto split: if_splits option.splits)

lemma setTermsTag_remove_no_call:
  assumes "setTermsTag es self terms tag False = Inr calls"
  shows "calls = []"
proof -
  from assms obtain results where
    r: "get_documents es terms ''term'' [''tag''] (activeCrawlerIndex self) ''terms'' = Inr results"
    by (auto simp: setTermsTag_def split: sum.splits)
  show ?thesis
  proof (cases "terms_remove_loop results tag terms []")
    case (Inl e)
    with assms r show ?thesis by (simp add: setTermsTag_def)
  next
    case (Inr u)
    with terms_remove_loop_no_update have "u = []" by blast
    with assms r Inr show ?thesis by (simp add: setTermsTag_def)
  qed
qed

text \<open>
  C1.  The claim: with \<open>add = true\<close>, an identifier whose stored tag set lacks the tag gets
  an update adding it.  The code tests \<open>tag not in old_tag\<close> on the stored string, a
  substring test: the page stored with the single tag \<open>Deep Web\<close> has a tag set without
  \<open>Web\<close>, and tagging it \<open>Web\<close> emits no entry (\<open>setPagesTag\<close> submits an empty update
  batch, \<open>setTermsTag\<close> makes no call).
\<close>

theorem add_tag_substring_of_stored:
  "''Web'' \<notin> set (decode_tags (Some ''Deep Web''))
   \<and> setPagesTag (\<lambda>_ _ _ _ _. [Some [(''tag'', [''Deep Web''])]]) self [''A''] ''Web'' True
       = Inr [UpdateDocument [] ''url'' (activeCrawlerIndex self) ''page'']
   \<and> setTermsTag (\<lambda>_ _ _ _ _. [Some [(''tag'', [''Deep Web''])]]) self [''A''] ''Web'' True = Inr []"
  by (simp add: setPagesTag_def setTermsTag_def get_documents_def decode_tags_def)

text \<open>
  C2.  The claim: with \<open>add = false\<close>, an identifier whose stored tag set contains the tag
  gets an update with the tag removed.  \<open>setTermsTag\<close> on the term stored with the tag
  \<open>Positive\<close> raises \<open>TypeError\<close> instead; \<open>setPagesTag\<close> on the same stored data emits the
  update with the tag removed.
\<close>

theorem untag_term_raises:
  "setTermsTag (\<lambda>_ _ _ _ _. [Some [(''tag'', [''Positive''])]]) self [''ebola''] ''Positive'' False
     = Inl TypeError
   \<and> setPagesTag (\<lambda>_ _ _ _ _. [Some [(''tag'', [''Positive''])]]) self [''ebola''] ''Positive'' False
     = Inr [UpdateDocument [(''ebola'', '''')] ''url'' (activeCrawlerIndex self) ''page'']"
  by (simp add: setPagesTag_def setTermsTag_def get_documents_def)

text \<open>
  The loops of \<open>setPagesTag\<close> and of the add branch of \<open>setTermsTag\<close>, without the test
  on \<open>len(results)\<close> (a lookup in the empty dictionary finds nothing), and what they
  append, identifier by identifier in input order.
\<close>

lemma pages_add_loop_step:
  "pages_add_loop results tag (page # pages) entries =
     (case map_of results page of
        None \<Rightarrow> pages_add_loop results tag pages (entries @ [(page, tag)])
      | Some record \<Rightarrow>
          (case map_of record ''tag'' of
             None \<Rightarrow> Inl KeyError
           | Some old_tag \<Rightarrow>
               if str_contains old_tag tag then pages_add_loop results tag pages entries
               else pages_add_loop results tag pages (entries @ [(page, old_tag @ '';'' @ tag)])))"
  by (cases "results = []") (simp_all split: option.splits)

lemma terms_add_loop_step:
  "terms_add_loop results tag (term # terms) (add_entries, update_entries) =
     (case map_of results term of
        None \<Rightarrow> terms_add_loop results tag terms (add_entries @ [(term, tag)], update_entries)
      | Some record \<Rightarrow>
          (case map_of record ''tag'' of
             None \<Rightarrow> Inl KeyError
           | Some old_tag \<Rightarrow>
               if str_contains old_tag tag
               then terms_add_loop results tag terms (add_entries, update_entries)
               else terms_add_loop results tag terms
                      (add_entries, update_entries @ [(term, old_tag @ '';'' @ tag)])))"
  by (cases "results = []") (simp_all split: option.splits)

lemma pages_remove_loop_step:
  "pages_remove_loop results tag (page # pages) entries =
     (case map_of results page of
        None \<Rightarrow> pages_remove_loop results tag pages entries
      | Some record \<Rightarrow>
          (case map_of record ''tag'' of
             None \<Rightarrow> Inl KeyError
           | Some old_tag \<Rightarrow>
               if str_contains old_tag tag then
                 (if tag \<in> set (str_split CHR '';'' old_tag)
                  then pages_remove_loop results tag pages
                         (entries @ [(page, str_join '';'' (remove1 tag (str_split CHR '';'' old_tag)))])
                  else Inl ValueError)
               else pages_remove_loop results tag pages entries))"
  by (cases "results = []") (simp_all add: Let_def split: option.splits)

lemma pages_add_loop_entries:
  assumes "\<forall>p \<in> set pages. \<forall>record. map_of results p = Some record \<longrightarrow> map_of record ''tag'' \<noteq> None"
  shows "pages_add_loop results tag pages acc
         = Inr (acc @ concat (map (\<lambda>p. case map_of results p of
                                        None \<Rightarrow> [(p, tag)]
                                      | Some record \<Rightarrow>
                                          (case map_of record ''tag'' of
                                             None \<Rightarrow> []
                                           | Some old_tag \<Rightarrow>
                                               if str_contains old_tag tag then []
                                               else [(p, old_tag @ '';'' @ tag)])) pages))"
  using assms
proof (induction pages arbitrary: acc)
  case Nil
  show ?case by simp
next
  case (Cons p pages)
  then show ?case
    by (auto simp del: pages_add_loop.simps(2) simp add: pages_add_loop_step split: option.splits)
qed

lemma pages_remove_loop_entries:
  assumes "\<forall>p \<in> set pages. \<forall>record old_tag. map_of results p = Some record \<longrightarrow>
             map_of record ''tag'' \<noteq> None
             \<and> (map_of record ''tag'' = Some old_tag \<and> str_contains old_tag tag
                  \<longrightarrow> tag \<in> set (str_split CHR '';'' old_tag))"
  shows "pages_remove_loop results tag pages acc
         = Inr (acc @ concat (map (\<lambda>p. case map_of results p of
                                      None \<Rightarrow> []
                                    | Some record \<Rightarrow>
                                        (case map_of record ''tag'' of
                                           None \<Rightarrow> []
                                         | Some old_tag \<Rightarrow>
                                             if str_contains old_tag tag
                                             then [(p, str_join '';'' (remove1 tag (str_split CHR '';'' old_tag)))]
                                             else [])) pages))"
  using assms
proof (induction pages arbitrary: acc)
  case Nil
  show ?case by simp
next
  case (Cons p pages)
  then show ?case
    by (auto simp del: pages_remove_loop.simps(2) simp add: pages_remove_loop_step Let_def
             split: option.splits)
qed

lemma terms_add_loop_entries:
  assumes "\<forall>t \<in> set terms. \<forall>record. map_of results t = Some record \<longrightarrow> map_of record ''tag'' \<noteq> None"
  shows "terms_add_loop results tag terms (adds, upds)
         = Inr (adds @ concat (map (\<lambda>t. case map_of results t of
                                        None \<Rightarrow> [(t, tag)]
                                      | Some record \<Rightarrow> []) terms),
                upds @ concat (map (\<lambda>t. case map_of results t of
                                        None \<Rightarrow> []
                                      | Some record \<Rightarrow>
                                          (case map_of record ''tag'' of
                                             None \<Rightarrow> []
                                           | Some old_tag \<Rightarrow>
                                               if str_contains old_tag tag then []
                                               else [(t, old_tag @ '';'' @ tag)])) terms))"
  using assms
proof (induction terms arbitrary: adds upds)
  case Nil
  show ?case by simp
next
  case (Cons t terms)
  then show ?case
    by (auto simp del: terms_add_loop.simps(2) simp add: terms_add_loop_step split: option.splits)
qed

text \<open>
  C3, as stated, fails for pages: tagging \<open>[A, B]\<close> with \<open>Positive\<close>, when \<open>A\<close> has no
  record and \<open>B\<close> is stored with \<open>Negative\<close>, makes one call, an update carrying both
  entries, and no create call.
\<close>

theorem tagPages_one_update_call:
  "setPagesTag (\<lambda>_ _ _ term _. if term = ''B'' then [Some [(''tag'', [''Negative''])]] else [])
      \<lparr>es_handle = None, activeCrawlerIndex = Some ''crawl'', filterText = None,
        pagesCap = 1000, randomTerms = []\<rparr>
      [''A'', ''B''] ''Positive'' True
     = Inr [UpdateDocument [(''A'', ''Positive''), (''B'', ''Negative;Positive'')]
              ''url'' (Some ''crawl'') ''page'']
   \<and> setPagesTag (\<lambda>_ _ _ term _. if term = ''B'' then [Some [(''tag'', [''Negative''])]] else [])
      \<lparr>es_handle = None, activeCrawlerIndex = Some ''crawl'', filterText = None,
        pagesCap = 1000, randomTerms = []\<rparr>
      [''A'', ''B''] ''Positive'' True
     \<noteq> Inr [AddDocument [(''A'', ''Positive'')] (Some ''crawl'') ''page'',
             UpdateDocument [(''B'', ''Negative;Positive'')] ''url'' (Some ''crawl'') ''page'']"
  by (simp add: setPagesTag_def get_documents_def)

text \<open>
  C3, amended.  On return \<open>setPagesTag\<close> has made exactly one call, an update, and
  \<open>setTermsTag\<close> an add call followed by an update call, each only when it has entries.
  For a batch whose fetched records all carry a tag string in which the tag occurs, if at
  all, as one of the elements between \<open>;\<close>: the one update call of \<open>setPagesTag\<close> carries
  all the entries of the batch in input order (adding: the tag alone for an identifier
  without record, the stored string extended by \<open>;tag\<close> for one whose tag list lacks the
  tag, nothing for one that has it; removing: the stored list without the tag for every
  identifier that has it); adding with \<open>setTermsTag\<close>, the add call carries the entries of
  the identifiers without record and the update call, made after it, the extended strings
  of the others, both in input order.  For \<open>[A, B]\<close> tagged \<open>Positive\<close>, with no record for
  \<open>A\<close> and \<open>Negative\<close> stored for \<open>B\<close>: \<open>setPagesTag\<close> makes the single update call with
  \<open>A: Positive\<close> and \<open>B: Negative;Positive\<close>; \<open>setTermsTag\<close> makes the add call with
  \<open>A: Positive\<close>, then the update call with \<open>B: Negative;Positive\<close>.
\<close>

theorem tag_calls:
  "(setPagesTag es self pages tag applyTagFlag = Inr calls \<longrightarrow>
      (\<exists>entries. calls = [UpdateDocument entries ''url'' (activeCrawlerIndex self) ''page'']))
   \<and> (setTermsTag es self terms tag applyTagFlag = Inr calls' \<longrightarrow>
      (\<exists>add_entries update_entries.
         calls' = (if add_entries = [] then []
                   else [AddDocument add_entries (activeCrawlerIndex self) ''terms''])
                  @ (if update_entries = [] then []
                     else [UpdateDocument update_entries ''term'' (activeCrawlerIndex self) ''terms''])))
   \<and> (get_documents es pages ''url'' [''tag''] (activeCrawlerIndex self) ''page'' = Inr results
        \<and> (\<forall>p \<in> set pages. \<forall>record. map_of results p = Some record \<longrightarrow>
              (\<exists>old_tag. map_of record ''tag'' = Some old_tag
                 \<and> (str_contains old_tag tag \<longrightarrow> tag \<in> set (str_split CHR '';'' old_tag))))
      \<longrightarrow> setPagesTag es self pages tag True
            = Inr [UpdateDocument
                     (concat (map (\<lambda>p. case map_of results p of
                                          None \<Rightarrow> [(p, tag)]
                                        | Some record \<Rightarrow>
                                            (case map_of record ''tag'' of
                                               None \<Rightarrow> []
                                             | Some old_tag \<Rightarrow>
                                                 if tag \<in> set (str_split CHR '';'' old_tag) then []
                                                 else [(p, old_tag @ '';'' @ tag)])) pages))
                     ''url'' (activeCrawlerIndex self) ''page'']
          \<and> setPagesTag es self pages tag False
            = Inr [UpdateDocument
                     (concat (map (\<lambda>p. case map_of results p of
                                          None \<Rightarrow> []
                                        | Some record \<Rightarrow>
                                            (case map_of record ''tag'' of
                                               None \<Rightarrow> []
                                             | Some old_tag \<Rightarrow>
                                                 if tag \<in> set (str_split CHR '';'' old_tag)
                                                 then [(p, str_join '';''
                                                            (remove1 tag (str_split CHR '';'' old_tag)))]
                                                 else [])) pages))
                     ''url'' (activeCrawlerIndex self) ''page''])
   \<and> (get_documents es terms ''term'' [''tag''] (activeCrawlerIndex self) ''terms'' = Inr results'
        \<and> (\<forall>t \<in> set terms. \<forall>record. map_of results' t = Some record \<longrightarrow>
              (\<exists>old_tag. map_of record ''tag'' = Some old_tag
                 \<and> (str_contains old_tag tag \<longrightarrow> tag \<in> set (str_split CHR '';'' old_tag))))
      \<longrightarrow> setTermsTag es self terms tag True
            = Inr ((let add_entries =
                          concat (map (\<lambda>t. case map_of results' t of
                                              None \<Rightarrow> [(t, tag)]
                                            | Some record \<Rightarrow> []) terms)
                    in if add_entries = [] then []
                       else [AddDocument add_entries (activeCrawlerIndex self) ''terms''])
                   @ (let update_entries =
                            concat (map (\<lambda>t. case map_of results' t of
                                                None \<Rightarrow> []
                                              | Some record \<Rightarrow>
                                                  (case map_of record ''tag'' of
                                                     None \<Rightarrow> []
                                                   | Some old_tag \<Rightarrow>
                                                       if tag \<in> set (str_split CHR '';'' old_tag) then []
                                                       else [(t, old_tag @ '';'' @ tag)])) terms)
                      in if update_entries = [] then []
                         else [UpdateDocument update_entries ''term'' (activeCrawlerIndex self) ''terms''])))
   \<and> (A \<noteq> B
        \<and> es (activeCrawlerIndex self) ''page'' ''url'' A [''tag''] = []
        \<and> es (activeCrawlerIndex self) ''page'' ''url'' B [''tag''] = [Some [(''tag'', [''Negative''])]]
      \<longrightarrow> setPagesTag es self [A, B] ''Positive'' True
            = Inr [UpdateDocument [(A, ''Positive''), (B, ''Negative;Positive'')]
                     ''url'' (activeCrawlerIndex self) ''page''])
   \<and> (A \<noteq> B
        \<and> es (activeCrawlerIndex self) ''terms'' ''term'' A [''tag''] = []
        \<and> es (activeCrawlerIndex self) ''terms'' ''term'' B [''tag''] = [Some [(''tag'', [''Negative''])]]
      \<longrightarrow> setTermsTag es self [A, B] ''Positive'' True
            = Inr [AddDocument [(A, ''Positive'')] (activeCrawlerIndex self) ''terms'',
                   UpdateDocument [(B, ''Negative;Positive'')] ''term'' (activeCrawlerIndex self) ''terms''])"
  (is "?shape_pages \<and> ?shape_terms \<and> ?batch_pages \<and> ?batch_terms \<and> ?scenario_pages \<and> ?scenario_terms")
proof -
  have shape_pages: ?shape_pages
    by (auto simp: setPagesTag_def split: sum.splits)
  have shape_terms: ?shape_terms
  proof
    assume "setTermsTag es self terms tag applyTagFlag = Inr calls'"
    then obtain a u where
      "calls' = (if a \<noteq> [] then [AddDocument a (activeCrawlerIndex self) ''terms''] else [])
                @ (if u \<noteq> [] then [UpdateDocument u ''term'' (activeCrawlerIndex self) ''terms''] else [])"
      by (auto simp: setTermsTag_def split: sum.splits prod.splits)
    then have "calls' = (if a = [] then [] else [AddDocument a (activeCrawlerIndex self) ''terms''])
                @ (if u = [] then [] else [UpdateDocument u ''term'' (activeCrawlerIndex self) ''terms''])"
      by simp
    then show "\<exists>add_entries update_entries.
         calls' = (if add_entries = [] then []
                   else [AddDocument add_entries (activeCrawlerIndex self) ''terms''])
                  @ (if update_entries = [] then []
                     else [UpdateDocument update_entries ''term'' (activeCrawlerIndex self) ''terms''])"
      by blast
  qed
  have batch_pages: ?batch_pages
  proof (intro impI, elim conjE)
    assume docs: "get_documents es pages ''url'' [''tag''] (activeCrawlerIndex self) ''page'' = Inr results"
      and wf: "\<forall>p \<in> set pages. \<forall>record. map_of results p = Some record \<longrightarrow>
              (\<exists>old_tag. map_of record ''tag'' = Some old_tag
                 \<and> (str_contains old_tag tag \<longrightarrow> tag \<in> set (str_split CHR '';'' old_tag)))"
    from wf have agree: "\<forall>p \<in> set pages. \<forall>record old_tag.
        map_of results p = Some record \<longrightarrow> map_of record ''tag'' = Some old_tag \<longrightarrow>
        str_contains old_tag tag = (tag \<in> set (str_split CHR '';'' old_tag))"
      using member_split_contains by fastforce
    from wf have tagged:
      "\<forall>p \<in> set pages. \<forall>record. map_of results p = Some record \<longrightarrow> map_of record ''tag'' \<noteq> None"
      by fastforce
    from wf have removable: "\<forall>p \<in> set pages. \<forall>record old_tag. map_of results p = Some record \<longrightarrow>
             map_of record ''tag'' \<noteq> None
             \<and> (map_of record ''tag'' = Some old_tag \<and> str_contains old_tag tag
                  \<longrightarrow> tag \<in> set (str_split CHR '';'' old_tag))"
      by fastforce
    have add_eq: "map (\<lambda>p. case map_of results p of
                       None \<Rightarrow> [(p, tag)]
                     | Some record \<Rightarrow>
                         (case map_of record ''tag'' of
                            None \<Rightarrow> []
                          | Some old_tag \<Rightarrow>
                              if str_contains old_tag tag then []
                              else [(p, old_tag @ '';'' @ tag)])) pages
                = map (\<lambda>p. case map_of results p of
                       None \<Rightarrow> [(p, tag)]
                     | Some record \<Rightarrow>
                         (case map_of record ''tag'' of
                            None \<Rightarrow> []
                          | Some old_tag \<Rightarrow>
                              if tag \<in> set (str_split CHR '';'' old_tag) then []
                              else [(p, old_tag @ '';'' @ tag)])) pages"
      using agree by (intro map_cong refl) (auto split: option.splits)
    have rem_eq: "map (\<lambda>p. case map_of results p of
                       None \<Rightarrow> []
                     | Some record \<Rightarrow>
                         (case map_of record ''tag'' of
                            None \<Rightarrow> []
                          | Some old_tag \<Rightarrow>
                              if str_contains old_tag tag
                              then [(p, str_join '';'' (remove1 tag (str_split CHR '';'' old_tag)))]
                              else [])) pages
                = map (\<lambda>p. case map_of results p of
                       None \<Rightarrow> []
                     | Some record \<Rightarrow>
                         (case map_of record ''tag'' of
                            None \<Rightarrow> []
                          | Some old_tag \<Rightarrow>
                              if tag \<in> set (str_split CHR '';'' old_tag)
                              then [(p, str_join '';'' (remove1 tag (str_split CHR '';'' old_tag)))]
                              else [])) pages"
      using agree by (intro map_cong refl) (auto split: option.splits)
    show "setPagesTag es self pages tag True
            = Inr [UpdateDocument
                     (concat (map (\<lambda>p. case map_of results p of
                                          None \<Rightarrow> [(p, tag)]
                                        | Some record \<Rightarrow>
                                            (case map_of record ''tag'' of
                                               None \<Rightarrow> []
                                             | Some old_tag \<Rightarrow>
                                                 if tag \<in> set (str_split CHR '';'' old_tag) then []
                                                 else [(p, old_tag @ '';'' @ tag)])) pages))
                     ''url'' (activeCrawlerIndex self) ''page'']
          \<and> setPagesTag es self pages tag False
            = Inr [UpdateDocument
                     (concat (map (\<lambda>p. case map_of results p of
                                          None \<Rightarrow> []
                                        | Some record \<Rightarrow>
                                            (case map_of record ''tag'' of
                                               None \<Rightarrow> []
                                             | Some old_tag \<Rightarrow>
                                                 if tag \<in> set (str_split CHR '';'' old_tag)
                                                 then [(p, str_join '';''
                                                            (remove1 tag (str_split CHR '';'' old_tag)))]
                                                 else [])) pages))
                     ''url'' (activeCrawlerIndex self) ''page'']"
      using docs pages_add_loop_entries [OF tagged, of tag "[]"]
        pages_remove_loop_entries [OF removable, of "[]"] add_eq rem_eq
      by (simp add: setPagesTag_def)
  qed
  have batch_terms: ?batch_terms
  proof (intro impI, elim conjE)
    assume docs: "get_documents es terms ''term'' [''tag''] (activeCrawlerIndex self) ''terms'' = Inr results'"
      and wf: "\<forall>t \<in> set terms. \<forall>record. map_of results' t = Some record \<longrightarrow>
              (\<exists>old_tag. map_of record ''tag'' = Some old_tag
                 \<and> (str_contains old_tag tag \<longrightarrow> tag \<in> set (str_split CHR '';'' old_tag)))"
    from wf have agree: "\<forall>t \<in> set terms. \<forall>record old_tag.
        map_of results' t = Some record \<longrightarrow> map_of record ''tag'' = Some old_tag \<longrightarrow>
        str_contains old_tag tag = (tag \<in> set (str_split CHR '';'' old_tag))"
      using member_split_contains by fastforce
    from wf have tagged:
      "\<forall>t \<in> set terms. \<forall>record. map_of results' t = Some record \<longrightarrow> map_of record ''tag'' \<noteq> None"
      by fastforce
    have upd_eq: "map (\<lambda>t. case map_of results' t of
                       None \<Rightarrow> []
                     | Some record \<Rightarrow>
                         (case map_of record ''tag'' of
                            None \<Rightarrow> []
                          | Some old_tag \<Rightarrow>
                              if str_contains old_tag tag then []
                              else [(t, old_tag @ '';'' @ tag)])) terms
                = map (\<lambda>t. case map_of results' t of
                       None \<Rightarrow> []
                     | Some record \<Rightarrow>
                         (case map_of record ''tag'' of
                            None \<Rightarrow> []
                          | Some old_tag \<Rightarrow>
                              if tag \<in> set (str_split CHR '';'' old_tag) then []
                              else [(t, old_tag @ '';'' @ tag)])) terms"
      using agree by (intro map_cong refl) (auto split: option.splits)
    show "setTermsTag es self terms tag True
            = Inr ((let add_entries =
                          concat (map (\<lambda>t. case map_of results' t of
                                              None \<Rightarrow> [(t, tag)]
                                            | Some record \<Rightarrow> []) terms)
                    in if add_entries = [] then []
                       else [AddDocument add_entries (activeCrawlerIndex self) ''terms''])
                   @ (let update_entries =
                            concat (map (\<lambda>t. case map_of results' t of
                                                None \<Rightarrow> []
                                              | Some record \<Rightarrow>
                                                  (case map_of record ''tag'' of
                                                     None \<Rightarrow> []
                                                   | Some old_tag \<Rightarrow>
                                                       if tag \<in> set (str_split CHR '';'' old_tag) then []
                                                       else [(t, old_tag @ '';'' @ tag)])) terms)
                      in if update_entries = [] then []
                         else [UpdateDocument update_entries ''term'' (activeCrawlerIndex self) ''terms'']))"
      using docs terms_add_loop_entries [OF tagged, of tag "[]" "[]"] upd_eq
      by (simp add: setTermsTag_def Let_def)
  qed
  have scenario_pages: ?scenario_pages
    by (simp add: setPagesTag_def get_documents_def)
  have scenario_terms: ?scenario_terms
    by (simp add: setTermsTag_def get_documents_def)
  from shape_pages shape_terms batch_pages batch_terms scenario_pages scenario_terms
  show ?thesis by blast
qed

text \<open>
  The amended C3 on the scenario: the batch \<open>[A, B]\<close> tagged \<open>Positive\<close>, for pages and for
  terms, and the same pages untagged \<open>Negative\<close>.
\<close>

theorem tag_calls_witness:
  "setPagesTag (\<lambda>_ _ _ term _. if term = ''B'' then [Some [(''tag'', [''Negative''])]] else []) \<lparr>es_handle = None, activeCrawlerIndex = Some ''crawl'', filterText = None,
        pagesCap = 1000, randomTerms = []\<rparr> [''A'', ''B''] ''Positive'' True
     = Inr [UpdateDocument [(''A'', ''Positive''), (''B'', ''Negative;Positive'')]
              ''url'' (Some ''crawl'') ''page'']
   \<and> setTermsTag (\<lambda>_ _ _ term _. if term = ''B'' then [Some [(''tag'', [''Negative''])]] else []) \<lparr>es_handle = None, activeCrawlerIndex = Some ''crawl'', filterText = None,
        pagesCap = 1000, randomTerms = []\<rparr> [''A'', ''B''] ''Positive'' True
     = Inr [AddDocument [(''A'', ''Positive'')] (Some ''crawl'') ''terms'',
            UpdateDocument [(''B'', ''Negative;Positive'')] ''term'' (Some ''crawl'') ''terms'']
   \<and> setPagesTag (\<lambda>_ _ _ term _. if term = ''B'' then [Some [(''tag'', [''Negative''])]] else []) \<lparr>es_handle = None, activeCrawlerIndex = Some ''crawl'', filterText = None,
        pagesCap = 1000, randomTerms = []\<rparr> [''A'', ''B''] ''Negative'' False
     = Inr [UpdateDocument [(''B'', '''')] ''url'' (Some ''crawl'') ''page'']"
  using
    tag_calls [where es = "(\<lambda>_ _ _ term _. if term = ''B'' then [Some [(''tag'', [''Negative''])]] else [])" and self = "\<lparr>es_handle = None, activeCrawlerIndex = Some ''crawl'', filterText = None,
        pagesCap = 1000, randomTerms = []\<rparr>"
      and pages = "[''A'', ''B'']" and terms = "[''A'', ''B'']" and tag = "''Positive''"
      and applyTagFlag = True and A = "''A''" and B = "''B''"
      and results = "[(''B'', [(''tag'', ''Negative'')])]"
      and results' = "[(''B'', [(''tag'', ''Negative'')])]"
      and calls = "[UpdateDocument [(''A'', ''Positive''), (''B'', ''Negative;Positive'')]
              ''url'' (Some ''crawl'') ''page'']"
      and calls' = "[AddDocument [(''A'', ''Positive'')] (Some ''crawl'') ''terms'',
            UpdateDocument [(''B'', ''Negative;Positive'')] ''term'' (Some ''crawl'') ''terms'']"]
    tag_calls [where es = "(\<lambda>_ _ _ term _. if term = ''B'' then [Some [(''tag'', [''Negative''])]] else [])" and self = "\<lparr>es_handle = None, activeCrawlerIndex = Some ''crawl'', filterText = None,
        pagesCap = 1000, randomTerms = []\<rparr>"
      and pages = "[''A'', ''B'']" and tag = "''Negative''"
      and results = "[(''B'', [(''tag'', ''Negative'')])]"]
  by (simp add: get_documents_def)

text \<open>
  C10.  \<open>get_documents\<close> called with an empty sequence of identifiers raises
  (\<open>UnboundLocalError\<close>: its result variable is bound only in the non-empty branch) instead
  of returning an empty mapping, and so do \<open>setPagesTag\<close> and \<open>setTermsTag\<close> on an empty
  batch, whatever the tag and the flag.
\<close>

theorem empty_batch_raises:
  "get_documents es [] term_field ret_fields es_index es_doc_type = Inl UnboundLocalError
   \<and> setPagesTag es self [] tag applyTagFlag = Inl UnboundLocalError
   \<and> setTermsTag es self [] tag applyTagFlag = Inl UnboundLocalError"
  by (simp add: get_documents_def setPagesTag_def setTermsTag_def)

subsection \<open>Page summary\<close>

text \<open>Every result is counted in exactly one of the three counters.\<close>

lemma count_tags_total:
  "count_tags results (r, i, n) = (r', i', n') \<Longrightarrow> r' + i' + n' = r + i + n + length results"
  by (induction results arbitrary: r i n) (auto split: option.splits if_splits)

text \<open>
  The scenario of the specification, with the tag field delivered as the stored string:
  \<open>A\<close> without tags, \<open>B\<close> tagged \<open>Relevant\<close>, \<open>C\<close> tagged \<open>Irrelevant;Relevant\<close>.
\<close>

lemma summary_scenario:
  "getPagesSummarySeedCrawler
     (\<lambda>_ _ _ _ _ _. [[(''url'', StrValue ''A'')],
                     [(''url'', StrValue ''B''), (''tag'', StrValue ''Relevant'')],
                     [(''url'', StrValue ''C''), (''tag'', StrValue ''Irrelevant;Relevant'')]])
     clock self opt_ts1 opt_ts2 opt_applyFilter
   = \<lparr>Relevant = 2, Irrelevant = 0, Neutral = 1\<rparr>"
  by (simp add: getPagesSummarySeedCrawler_def)

text \<open>
  C4.  The claim: a document is counted relevant when \<open>Relevant\<close> is in its tag set,
  otherwise irrelevant when \<open>Irrelevant\<close> is, otherwise neutral.  The code tests
  \<open>'Relevant' in res['tag']\<close> on the field as delivered.  Delivered as the stored string,
  a page whose only tag is \<open>NotRelevant\<close> is counted relevant; delivered as the list of
  the field's values, a page stored with \<open>Irrelevant;Relevant\<close> is counted neutral.
\<close>

theorem summary_counts_by_containment:
  "''Relevant'' \<notin> set (decode_tags (Some ''NotRelevant''))
   \<and> getPagesSummarySeedCrawler
        (\<lambda>_ _ _ _ _ _. [[(''url'', StrValue ''A''), (''tag'', StrValue ''NotRelevant'')]])
        clock self opt_ts1 opt_ts2 opt_applyFilter
       = \<lparr>Relevant = 1, Irrelevant = 0, Neutral = 0\<rparr>
   \<and> getPagesSummarySeedCrawler
        (\<lambda>_ _ _ _ _ _. [[(''url'', ListValue [''C'']), (''tag'', ListValue [''Irrelevant;Relevant''])]])
        clock self opt_ts1 opt_ts2 opt_applyFilter
       = \<lparr>Relevant = 0, Irrelevant = 0, Neutral = 1\<rparr>"
  by (simp add: getPagesSummarySeedCrawler_def decode_tags_def)

text \<open>
  C5.  The claim: the summary is restricted by the active filter when \<open>applyFilter\<close> is
  true, and both branches issue the same query.  The two branches do issue the same
  query, and that query never reads the filter: the summary requested with the flag set
  and a filter in place is the summary requested without flag and without filter.
\<close>

theorem summary_ignores_filter:
  "getPagesSummarySeedCrawler range_fn clock (self\<lparr>filterText := Some f\<rparr>) opt_ts1 opt_ts2 True
     = getPagesSummarySeedCrawler range_fn clock (self\<lparr>filterText := None\<rparr>) opt_ts1 opt_ts2 False"
  by (simp add: getPagesSummarySeedCrawler_def)

subsection \<open>Term summary\<close>

text \<open>
  \<open>get_all_ids\<close> returns the first \<open>url\<close> value of every hit, in the order of the hits.
\<close>

lemma get_all_ids_loop_urls:
  "list_all2 (\<lambda>hit u. \<exists>flds vs. hit = Some flds \<and> map_of flds ''url'' = Some (u # vs)) hits ids
   \<Longrightarrow> get_all_ids_loop hits urls = Inr (urls @ ids)"
proof (induction hits ids arbitrary: urls rule: list_all2_induct)
  case Nil
  show ?case by simp
next
  case (Cons hit u hits ids)
  then show ?case by auto
qed

lemma map_of_keyed: "map_of (map (\<lambda>key. (key, f key)) keys) t = (if t \<in> set keys then Some (f t) else None)"
  by (induction keys) auto

lemma term_entries_map:
  assumes "\<forall>t \<in> set ts. map_of pos_freq t = Some (pf t) \<and> map_of neg_freq t = Some (nf t)"
    and "\<forall>t \<in> set ts. \<forall>record. map_of tags t = Some record \<longrightarrow> map_of record ''tag'' \<noteq> None"
  shows "term_entries tags pos_freq neg_freq ts acc
         = Inr (acc @ map (\<lambda>t. (t, pf t, nf t,
                     case map_of tags t of
                       None \<Rightarrow> []
                     | Some record \<Rightarrow>
                         (case map_of record ''tag'' of
                            None \<Rightarrow> []
                          | Some s \<Rightarrow> str_split CHR '';'' s))) ts)"
  using assms
proof (induction ts arbitrary: acc)
  case Nil
  show ?case by simp
next
  case (Cons t ts)
  then show ?case by (auto split: option.splits)
qed

text \<open>
  C8.  With exactly one URL tagged \<open>Relevant\<close> the result is the empty list.  With none,
  and a dataset without any page, it is the empty list.  With none, and every hit of the
  dataset carrying a \<open>url\<close>, the URLs used are those of all the hits, in order: when they
  are fewer than two the result is the empty list, returned and not raised; when they are
  two or more and the tags of the top terms are fetched, the result lists the top terms
  ranked over all those URLs, in rank order, each with positive frequency 0, with its
  frequency in the irrelevant pages (0 unless two or more pages are tagged \<open>Irrelevant\<close>)
  and its own tags.
\<close>

theorem getTermsSummarySeedCrawler_fallback:
  "(term_search rk ''tag'' [''Relevant''] (activeCrawlerIndex self) ''page'' = [u]
      \<longrightarrow> getTermsSummarySeedCrawler es rk self opt_maxNumberOfTerms = Inr [])
   \<and> (term_search rk ''tag'' [''Relevant''] (activeCrawlerIndex self) ''page'' = []
        \<and> match_all rk (activeCrawlerIndex self) ''page'' = []
      \<longrightarrow> getTermsSummarySeedCrawler es rk self opt_maxNumberOfTerms = Inr [])
   \<and> (list_all2 (\<lambda>hit u. \<exists>flds vs. hit = Some flds \<and> map_of flds ''url'' = Some (u # vs))
          (match_all rk (activeCrawlerIndex self) ''page'') ids
      \<longrightarrow> get_all_ids rk (activeCrawlerIndex self) ''page'' = Inr ids)
   \<and> (term_search rk ''tag'' [''Relevant''] (activeCrawlerIndex self) ''page'' = []
        \<and> list_all2 (\<lambda>hit u. \<exists>flds vs. hit = Some flds \<and> map_of flds ''url'' = Some (u # vs))
             (match_all rk (activeCrawlerIndex self) ''page'') ids
        \<and> length ids < 2
      \<longrightarrow> getTermsSummarySeedCrawler es rk self opt_maxNumberOfTerms = Inr [])
   \<and> (term_search rk ''tag'' [''Relevant''] (activeCrawlerIndex self) ''page'' = []
        \<and> list_all2 (\<lambda>hit u. \<exists>flds vs. hit = Some flds \<and> map_of flds ''url'' = Some (u # vs))
             (match_all rk (activeCrawlerIndex self) ''page'') ids
        \<and> 2 \<le> length ids
        \<and> get_documents es (getTopTerms rk ids opt_maxNumberOfTerms) ''term'' [''tag'']
             (activeCrawlerIndex self) ''terms'' = Inr tags
        \<and> (\<forall>t \<in> set (getTopTerms rk ids opt_maxNumberOfTerms).
              \<forall>record. map_of tags t = Some record \<longrightarrow> map_of record ''tag'' \<noteq> None)
      \<longrightarrow> getTermsSummarySeedCrawler es rk self opt_maxNumberOfTerms
          = Inr (map (\<lambda>t. (t, 0,
                       if length (term_search rk ''tag'' [''Irrelevant''] (activeCrawlerIndex self) ''page'') > 1
                       then (case map_of (getTtf rk (term_search rk ''tag'' [''Irrelevant'']
                                                      (activeCrawlerIndex self) ''page'')) t of
                               None \<Rightarrow> 0 | Some f \<Rightarrow> f)
                       else 0,
                       case map_of tags t of
                         None \<Rightarrow> []
                       | Some record \<Rightarrow>
                           (case map_of record ''tag'' of
                              None \<Rightarrow> []
                            | Some s \<Rightarrow> str_split CHR '';'' s)))
                  (getTopTerms rk ids opt_maxNumberOfTerms)))"
  (is "?one \<and> ?none \<and> ?ids \<and> ?few \<and> ?many")
proof -
  have one: ?one
    by (simp add: getTermsSummarySeedCrawler_def)
  have none: ?none
    by (simp add: getTermsSummarySeedCrawler_def get_all_ids_def)
  have ids: ?ids
    using get_all_ids_loop_urls [of "match_all rk (activeCrawlerIndex self) ''page''" ids "[]"]
    by (simp add: get_all_ids_def)
  have few: ?few
    using ids by (simp add: getTermsSummarySeedCrawler_def)
  have many: ?many
  proof (intro impI, elim conjE)
    let ?top = "getTopTerms rk ids opt_maxNumberOfTerms"
    let ?neg = "term_search rk ''tag'' [''Irrelevant''] (activeCrawlerIndex self) ''page''"
    let ?nf = "\<lambda>t. if length ?neg > 1
                   then (case map_of (getTtf rk ?neg) t of None \<Rightarrow> 0 | Some f \<Rightarrow> f) else (0::int)"
    let ?neg_freq = "if length ?neg > 1 then freq_of (getTtf rk ?neg) ?top else zero_freq ?top"
    assume a: "term_search rk ''tag'' [''Relevant''] (activeCrawlerIndex self) ''page'' = []"
      and wf: "list_all2 (\<lambda>hit u. \<exists>flds vs. hit = Some flds \<and> map_of flds ''url'' = Some (u # vs))
             (match_all rk (activeCrawlerIndex self) ''page'') ids"
      and len: "2 \<le> length ids"
      and docs: "get_documents es ?top ''term'' [''tag''] (activeCrawlerIndex self) ''terms'' = Inr tags"
      and tagged: "\<forall>t \<in> set ?top. \<forall>record. map_of tags t = Some record \<longrightarrow> map_of record ''tag'' \<noteq> None"
    from ids wf have g: "get_all_ids rk (activeCrawlerIndex self) ''page'' = Inr ids" by simp
    have freqs: "\<forall>t \<in> set ?top. map_of (zero_freq ?top) t = Some ((\<lambda>_. 0) t)
                   \<and> map_of ?neg_freq t = Some (?nf t)"
      by (simp add: zero_freq_def freq_of_def map_of_keyed)
    have unfold: "getTermsSummarySeedCrawler es rk self opt_maxNumberOfTerms
                  = term_entries tags (zero_freq ?top) ?neg_freq ?top []"
      using a g len docs by (simp add: getTermsSummarySeedCrawler_def Let_def)
    from term_entries_map [OF freqs tagged, of "[]"] unfold
    show "getTermsSummarySeedCrawler es rk self opt_maxNumberOfTerms
          = Inr (map (\<lambda>t. (t, 0, ?nf t,
                       case map_of tags t of
                         None \<Rightarrow> []
                       | Some record \<Rightarrow>
                           (case map_of record ''tag'' of
                              None \<Rightarrow> []
                            | Some s \<Rightarrow> str_split CHR '';'' s))) ?top)"
      by simp
  qed
  from one none ids few many show ?thesis by blast
qed

text \<open>
  C8 on four datasets: one relevant URL; no relevant URL and one page; no page at all;
  no relevant URL and two pages, whose ranking gives the single term \<open>ebola\<close>.
\<close>

theorem getTermsSummarySeedCrawler_fallback_witness:
  "getTermsSummarySeedCrawler (\<lambda>_ _ _ _ _. [])
      \<lparr>term_search = (\<lambda>_ vs _ _. if vs = [''Relevant''] then [''http://a''] else []), match_all = (\<lambda>_ _. [Some [(''url'', [''http://a''])], Some [(''url'', [''http://b''])]]),
       getTopTerms = (\<lambda>urls _. if urls = [''http://a'', ''http://b''] then [''ebola''] else []),
       getTtf = (\<lambda>_. [(''ebola'', 3)])\<rparr>
      \<lparr>es_handle = None, activeCrawlerIndex = Some ''crawl'', filterText = None,
        pagesCap = 1000, randomTerms = []\<rparr> 50 = Inr []
   \<and> get_all_ids
      \<lparr>term_search = (\<lambda>_ _ _ _. []), match_all = (\<lambda>_ _. [Some [(''url'', [''http://a''])]]),
       getTopTerms = (\<lambda>urls _. if urls = [''http://a'', ''http://b''] then [''ebola''] else []),
       getTtf = (\<lambda>_. [(''ebola'', 3)])\<rparr> (Some ''crawl'') ''page'' = Inr [''http://a'']
   \<and> getTermsSummarySeedCrawler (\<lambda>_ _ _ _ _. [])
      \<lparr>term_search = (\<lambda>_ _ _ _. []), match_all = (\<lambda>_ _. [Some [(''url'', [''http://a''])]]),
       getTopTerms = (\<lambda>urls _. if urls = [''http://a'', ''http://b''] then [''ebola''] else []),
       getTtf = (\<lambda>_. [(''ebola'', 3)])\<rparr>
      \<lparr>es_handle = None, activeCrawlerIndex = Some ''crawl'', filterText = None,
        pagesCap = 1000, randomTerms = []\<rparr> 50 = Inr []
   \<and> getTermsSummarySeedCrawler (\<lambda>_ _ _ _ _. [])
      \<lparr>term_search = (\<lambda>_ _ _ _. []), match_all = (\<lambda>_ _. []),
       getTopTerms = (\<lambda>urls _. if urls = [''http://a'', ''http://b''] then [''ebola''] else []),
       getTtf = (\<lambda>_. [(''ebola'', 3)])\<rparr>
      \<lparr>es_handle = None, activeCrawlerIndex = Some ''crawl'', filterText = None,
        pagesCap = 1000, randomTerms = []\<rparr> 50 = Inr []
   \<and> get_all_ids
      \<lparr>term_search = (\<lambda>_ _ _ _. []), match_all = (\<lambda>_ _. [Some [(''url'', [''http://a''])], Some [(''url'', [''http://b''])]]),
       getTopTerms = (\<lambda>urls _. if urls = [''http://a'', ''http://b''] then [''ebola''] else []),
       getTtf = (\<lambda>_. [(''ebola'', 3)])\<rparr> (Some ''crawl'') ''page'' = Inr [''http://a'', ''http://b'']
   \<and> getTermsSummarySeedCrawler (\<lambda>_ _ _ _ _. [])
      \<lparr>term_search = (\<lambda>_ _ _ _. []), match_all = (\<lambda>_ _. [Some [(''url'', [''http://a''])], Some [(''url'', [''http://b''])]]),
       getTopTerms = (\<lambda>urls _. if urls = [''http://a'', ''http://b''] then [''ebola''] else []),
       getTtf = (\<lambda>_. [(''ebola'', 3)])\<rparr>
      \<lparr>es_handle = None, activeCrawlerIndex = Some ''crawl'', filterText = None,
        pagesCap = 1000, randomTerms = []\<rparr> 50 = Inr [(''ebola'', 0, 0, [])]"
  using
    getTermsSummarySeedCrawler_fallback [where
      rk = "\<lparr>term_search = (\<lambda>_ vs _ _. if vs = [''Relevant''] then [''http://a''] else []), match_all = (\<lambda>_ _. [Some [(''url'', [''http://a''])], Some [(''url'', [''http://b''])]]),
       getTopTerms = (\<lambda>urls _. if urls = [''http://a'', ''http://b''] then [''ebola''] else []),
       getTtf = (\<lambda>_. [(''ebola'', 3)])\<rparr>"
      and self = "\<lparr>es_handle = None, activeCrawlerIndex = Some ''crawl'', filterText = None,
        pagesCap = 1000, randomTerms = []\<rparr>" and u = "''http://a''" and es = "(\<lambda>_ _ _ _ _. [])"
      and opt_maxNumberOfTerms = 50]
    getTermsSummarySeedCrawler_fallback [where
      rk = "\<lparr>term_search = (\<lambda>_ _ _ _. []), match_all = (\<lambda>_ _. [Some [(''url'', [''http://a''])]]),
       getTopTerms = (\<lambda>urls _. if urls = [''http://a'', ''http://b''] then [''ebola''] else []),
       getTtf = (\<lambda>_. [(''ebola'', 3)])\<rparr>"
      and self = "\<lparr>es_handle = None, activeCrawlerIndex = Some ''crawl'', filterText = None,
        pagesCap = 1000, randomTerms = []\<rparr>" and es = "(\<lambda>_ _ _ _ _. [])"
      and opt_maxNumberOfTerms = 50 and ids = "[''http://a'']"]
    getTermsSummarySeedCrawler_fallback [where
      rk = "\<lparr>term_search = (\<lambda>_ _ _ _. []), match_all = (\<lambda>_ _. []),
       getTopTerms = (\<lambda>urls _. if urls = [''http://a'', ''http://b''] then [''ebola''] else []),
       getTtf = (\<lambda>_. [(''ebola'', 3)])\<rparr>"
      and self = "\<lparr>es_handle = None, activeCrawlerIndex = Some ''crawl'', filterText = None,
        pagesCap = 1000, randomTerms = []\<rparr>" and es = "(\<lambda>_ _ _ _ _. [])"
      and opt_maxNumberOfTerms = 50]
    getTermsSummarySeedCrawler_fallback [where
      rk = "\<lparr>term_search = (\<lambda>_ _ _ _. []), match_all = (\<lambda>_ _. [Some [(''url'', [''http://a''])], Some [(''url'', [''http://b''])]]),
       getTopTerms = (\<lambda>urls _. if urls = [''http://a'', ''http://b''] then [''ebola''] else []),
       getTtf = (\<lambda>_. [(''ebola'', 3)])\<rparr>"
      and self = "\<lparr>es_handle = None, activeCrawlerIndex = Some ''crawl'', filterText = None,
        pagesCap = 1000, randomTerms = []\<rparr>" and es = "(\<lambda>_ _ _ _ _. [])"
      and opt_maxNumberOfTerms = 50 and ids = "[''http://a'', ''http://b'']" and tags = "[]"]
  by (simp add: get_documents_def)

subsection \<open>Filter\<close>

text \<open>
  C9.  \<open>applyFilter\<close> with a non-empty text sets the filter to that text; with the empty
  text or no text it returns the session as it was, the filter included; in every case
  the other fields of the session are unchanged.
\<close>

theorem applyFilter_sets_or_keeps:
  "(text \<noteq> [] \<longrightarrow> filterText (applyFilter self (Some text)) = Some text)
   \<and> applyFilter self (Some []) = self
   \<and> applyFilter self None = self
   \<and> es_handle (applyFilter self terms) = es_handle self
   \<and> activeCrawlerIndex (applyFilter self terms) = activeCrawlerIndex self
   \<and> pagesCap (applyFilter self terms) = pagesCap self
   \<and> randomTerms (applyFilter self terms) = randomTerms self"
  by (simp add: applyFilter_def split: option.split)

text \<open>C9 on a session filtered by \<open>flu\<close>: \<open>ebola\<close> replaces the filter, the empty text keeps it.\<close>

theorem applyFilter_sets_or_keeps_witness:
  "filterText (applyFilter \<lparr>es_handle = None, activeCrawlerIndex = Some ''crawl'',
      filterText = Some ''flu'', pagesCap = 1000, randomTerms = []\<rparr> (Some ''ebola'')) = Some ''ebola''
   \<and> filterText (applyFilter \<lparr>es_handle = None, activeCrawlerIndex = Some ''crawl'',
      filterText = Some ''flu'', pagesCap = 1000, randomTerms = []\<rparr> (Some '''')) = Some ''flu''"
  using applyFilter_sets_or_keeps [of "''ebola''"
      "\<lparr>es_handle = None, activeCrawlerIndex = Some ''crawl'', filterText = Some ''flu'',
        pagesCap = 1000, randomTerms = []\<rparr>"]
  by simp

subsection \<open>Projection\<close>

lemma assign_coordinates_rows:
  assumes "\<forall>r \<in> set rows. 2 \<le> length r"
  shows "\<exists>pages'. assign_coordinates rows i pages = Inr pages' \<and> length pages' = length pages
           \<and> (\<forall>k < length pages.
                 pages' ! k = (if i + k < length rows
                               then (pages ! k)\<lparr>p_x := rows ! (i + k) ! 0, p_y := rows ! (i + k) ! 1\<rparr>
                               else pages ! k))"
proof (induction pages arbitrary: i)
  case Nil
  show ?case by simp
next
  case (Cons page pages)
  show ?case
  proof (cases "length rows \<le> i")
    case True
    then show ?thesis by simp
  next
    case False
    then have "rows ! i \<in> set rows" by simp
    with assms have "2 \<le> length (rows ! i)" by blast
    then obtain c0 c1 cs where row: "rows ! i = c0 # c1 # cs"
      by (cases "rows ! i"; cases "tl (rows ! i)") auto
    from Cons.IH [of "Suc i"] obtain rest where
      rest: "assign_coordinates rows (Suc i) pages = Inr rest" "length rest = length pages"
        "\<forall>k < length pages.
           rest ! k = (if Suc i + k < length rows
                       then (pages ! k)\<lparr>p_x := rows ! (Suc i + k) ! 0, p_y := rows ! (Suc i + k) ! 1\<rparr>
                       else pages ! k)"
      by blast
    have step: "assign_coordinates rows i (page # pages) = Inr (page\<lparr>p_x := c0, p_y := c1\<rparr> # rest)"
      using False row rest(1) by simp
    have "\<forall>k < length (page # pages).
            (page\<lparr>p_x := c0, p_y := c1\<rparr> # rest) ! k
              = (if i + k < length rows
                 then ((page # pages) ! k)\<lparr>p_x := rows ! (i + k) ! 0, p_y := rows ! (i + k) ! 1\<rparr>
                 else (page # pages) ! k)"
    proof (intro allI impI)
      fix k assume "k < length (page # pages)"
      then show "(page\<lparr>p_x := c0, p_y := c1\<rparr> # rest) ! k
              = (if i + k < length rows
                 then ((page # pages) ! k)\<lparr>p_x := rows ! (i + k) ! 0, p_y := rows ! (i + k) ! 1\<rparr>
                 else (page # pages) ! k)"
        using False row rest(3) by (cases k) auto
    qed
    with step rest(2) show ?thesis by simp
  qed
qed

text \<open>
  C7, as stated, fails: an input page sequence can raise.  For a single page, a reduction
  that delivers one column per row raises \<open>IndexError\<close> at \<open>pcadata[1][i][1]\<close>, and a
  reduction that raises (as scikit-learn does when asked for more components than there
  are pages) is raised by \<open>pcaProjectPages\<close>.
\<close>

theorem pcaProjectPages_raises:
  "pcaProjectPages
      \<lparr>getTermStatistics = (\<lambda>_ _ _. ([[1, 2]], [''a'', ''b''])),
       pca_fit = (\<lambda>_ _. Inr ([1], [[0]]))\<rparr>
      \<lparr>es_handle = None, activeCrawlerIndex = Some ''crawl'', filterText = None,
        pagesCap = 1000, randomTerms = []\<rparr>
      [\<lparr>p_url = ''A'', p_x = 0, p_y = 0, p_tags = [], p_retrieved = ''t1''\<rparr>]
    = Inl IndexError
   \<and> pcaProjectPages
      \<lparr>getTermStatistics = (\<lambda>_ _ _. ([[1, 2]], [''a'', ''b''])),
       pca_fit = (\<lambda>_ _. Inl ValueError)\<rparr>
      \<lparr>es_handle = None, activeCrawlerIndex = Some ''crawl'', filterText = None,
        pagesCap = 1000, randomTerms = []\<rparr>
      [\<lparr>p_url = ''A'', p_x = 0, p_y = 0, p_tags = [], p_retrieved = ''t1''\<rparr>]
    = Inl ValueError"
  by (simp add: pcaProjectPages_def term_tfidf_def runPCASKLearn_def)

text \<open>
  C7, amended.  \<open>pcaProjectPages\<close> asks the reduction for exactly 2 components on the
  term-frequency matrix of the pages' URLs, taken in input order.  When the reduction
  returns a matrix \<open>rows\<close> of two columns, the call returns the pages in input order, as
  many as it was given, page \<open>i\<close> with \<open>x\<close> and \<open>y\<close> set to the two entries of row \<open>i\<close> and
  otherwise as before, and every page from index \<open>length rows\<close> on unchanged, without
  error.  When the reduction raises, \<open>pcaProjectPages\<close> raises the same error.
\<close>

theorem pcaProjectPages_coordinates:
  "(pca_fit nm (Some 2)
      (fst (getTermStatistics nm (map p_url pages) (activeCrawlerIndex self) ''page''))
      = Inr (ratios, rows)
     \<and> (\<forall>r \<in> set rows. length r = 2)
    \<longrightarrow> (\<exists>pages'. pcaProjectPages nm self pages = Inr pages' \<and> length pages' = length pages
           \<and> (\<forall>i < length pages.
                 (i < length rows \<longrightarrow>
                    pages' ! i = (pages ! i)\<lparr>p_x := rows ! i ! 0, p_y := rows ! i ! 1\<rparr>)
                 \<and> (length rows \<le> i \<longrightarrow> pages' ! i = pages ! i))))
   \<and> (pca_fit nm (Some 2)
        (fst (getTermStatistics nm (map p_url pages) (activeCrawlerIndex self) ''page''))
        = Inl e
      \<longrightarrow> pcaProjectPages nm self pages = Inl e)"
  (is "?reduced \<and> ?raised")
proof -
  obtain data corpus where
    stats: "getTermStatistics nm (map p_url pages) (activeCrawlerIndex self) ''page'' = (data, corpus)"
    by (cases "getTermStatistics nm (map p_url pages) (activeCrawlerIndex self) ''page''")
  have reduced: ?reduced
  proof (intro impI, elim conjE)
    assume fit: "pca_fit nm (Some 2)
        (fst (getTermStatistics nm (map p_url pages) (activeCrawlerIndex self) ''page''))
        = Inr (ratios, rows)"
      and two: "\<forall>r \<in> set rows. length r = 2"
    from two have "\<forall>r \<in> set rows. 2 \<le> length r" by simp
    from assign_coordinates_rows [OF this, of 0 pages] obtain pages' where
      p: "assign_coordinates rows 0 pages = Inr pages'" "length pages' = length pages"
         "\<forall>k < length pages.
            pages' ! k = (if k < length rows
                          then (pages ! k)\<lparr>p_x := rows ! k ! 0, p_y := rows ! k ! 1\<rparr>
                          else pages ! k)"
      by auto
    have "pcaProjectPages nm self pages = assign_coordinates rows 0 pages"
      using fit stats by (simp add: pcaProjectPages_def term_tfidf_def runPCASKLearn_def)
    with p show "\<exists>pages'. pcaProjectPages nm self pages = Inr pages' \<and> length pages' = length pages
           \<and> (\<forall>i < length pages.
                 (i < length rows \<longrightarrow>
                    pages' ! i = (pages ! i)\<lparr>p_x := rows ! i ! 0, p_y := rows ! i ! 1\<rparr>)
                 \<and> (length rows \<le> i \<longrightarrow> pages' ! i = pages ! i))"
      by auto
  qed
  have raised: ?raised
    using stats by (simp add: pcaProjectPages_def term_tfidf_def runPCASKLearn_def)
  from reduced raised show ?thesis by blast
qed

text \<open>
  The amended C7 on two pages and a reduction that gives one row for their matrix when
  asked for 2 components: the first page gets the row, the second keeps its coordinates;
  and on a reduction that raises.
\<close>

theorem pcaProjectPages_coordinates_witness:
  "pcaProjectPages
      \<lparr>getTermStatistics = (\<lambda>urls _ _. if urls = [''A'', ''B''] then ([[1, 0], [0, 1]], [''a'', ''b''])
                                       else ([], [])),
       pca_fit = (\<lambda>n X. if n = Some 2 \<and> X = [[1, 0], [0, 1]] then Inr ([1], [[3, 4]])
                          else Inl ValueError)\<rparr>
      \<lparr>es_handle = None, activeCrawlerIndex = Some ''crawl'', filterText = None,
        pagesCap = 1000, randomTerms = []\<rparr>
      [\<lparr>p_url = ''A'', p_x = 0, p_y = 0, p_tags = [], p_retrieved = ''t1''\<rparr>,
       \<lparr>p_url = ''B'', p_x = 7, p_y = 8, p_tags = [''Relevant''], p_retrieved = ''t0''\<rparr>]
    = Inr [\<lparr>p_url = ''A'', p_x = 3, p_y = 4, p_tags = [], p_retrieved = ''t1''\<rparr>,
           \<lparr>p_url = ''B'', p_x = 7, p_y = 8, p_tags = [''Relevant''], p_retrieved = ''t0''\<rparr>]
   \<and> pcaProjectPages
      \<lparr>getTermStatistics = (\<lambda>_ _ _. ([[1, 2]], [''a'', ''b''])),
       pca_fit = (\<lambda>_ _. Inl ValueError)\<rparr>
      \<lparr>es_handle = None, activeCrawlerIndex = Some ''crawl'', filterText = None,
        pagesCap = 1000, randomTerms = []\<rparr>
      [\<lparr>p_url = ''A'', p_x = 5, p_y = 6, p_tags = [], p_retrieved = ''t1''\<rparr>]
    = Inl ValueError"
proof -
  let ?nm = "\<lparr>getTermStatistics = (\<lambda>urls _ _. if urls = [''A'', ''B''] then ([[1, 0], [0, 1]], [''a'', ''b''])
                                       else ([], [])),
       pca_fit = (\<lambda>n X. if n = Some 2 \<and> X = [[1, 0], [0, 1]] then Inr ([1], [[3, 4]])
                          else Inl ValueError)\<rparr> :: numerics"
  let ?self = "\<lparr>es_handle = None, activeCrawlerIndex = Some ''crawl'', filterText = None,
        pagesCap = 1000, randomTerms = []\<rparr>"
  let ?pages = "[\<lparr>p_url = ''A'', p_x = 0, p_y = 0, p_tags = [], p_retrieved = ''t1''\<rparr>,
       \<lparr>p_url = ''B'', p_x = 7, p_y = 8, p_tags = [''Relevant''], p_retrieved = ''t0''\<rparr>]"
  have h1: "pca_fit ?nm (Some 2)
             (fst (getTermStatistics ?nm (map p_url ?pages) (activeCrawlerIndex ?self) ''page''))
           = Inr ([1], [[3, 4]])"
    by simp
  have h2: "\<forall>r \<in> set [[3, 4 :: real]]. length r = 2" by simp
  from pcaProjectPages_coordinates [where nm = ?nm and self = ?self and pages = ?pages
      and ratios = "[1]" and rows = "[[3, 4]]"] h1 h2
  obtain pages' where
    p: "pcaProjectPages ?nm ?self ?pages = Inr pages'" "length pages' = length ?pages"
    and q: "\<forall>i < length ?pages.
                 (i < length [[3, 4 :: real]] \<longrightarrow>
                    pages' ! i = (?pages ! i)\<lparr>p_x := [[3, 4]] ! i ! 0, p_y := [[3, 4]] ! i ! 1\<rparr>)
                 \<and> (length [[3, 4 :: real]] \<le> i \<longrightarrow> pages' ! i = ?pages ! i)"
    by blast
  from spec [OF q, of 0] have q0: "pages' ! 0 = (?pages ! 0)\<lparr>p_x := 3, p_y := 4\<rparr>" by simp
  from spec [OF q, of 1] have q1: "pages' ! 1 = ?pages ! 1" by simp
  from p(2) obtain a b where "pages' = [a, b]"
    by (cases pages'; cases "tl pages'") auto
  with p(1) q0 q1 have first: "pcaProjectPages ?nm ?self ?pages
    = Inr [\<lparr>p_url = ''A'', p_x = 3, p_y = 4, p_tags = [], p_retrieved = ''t1''\<rparr>,
           \<lparr>p_url = ''B'', p_x = 7, p_y = 8, p_tags = [''Relevant''], p_retrieved = ''t0''\<rparr>]"
    by simp
  have second: "pcaProjectPages
      \<lparr>getTermStatistics = (\<lambda>_ _ _. ([[1, 2]], [''a'', ''b''])),
       pca_fit = (\<lambda>_ _. Inl ValueError)\<rparr>
      ?self
      [\<lparr>p_url = ''A'', p_x = 5, p_y = 6, p_tags = [], p_retrieved = ''t1''\<rparr>]
    = Inl ValueError"
    using pcaProjectPages_coordinates [where
        nm = "\<lparr>getTermStatistics = (\<lambda>_ _ _. ([[1, 2]], [''a'', ''b''])),
               pca_fit = (\<lambda>_ _. Inl ValueError)\<rparr>"
        and self = ?self and e = ValueError
        and pages = "[\<lparr>p_url = ''A'', p_x = 5, p_y = 6, p_tags = [], p_retrieved = ''t1''\<rparr>]"]
    by simp
  from first second show ?thesis by simp
qed

end
